theory Spec2Isabelle
  imports Main "HOL-Library.Word"
begin

section \<open>The isolate environment (src/isolate/environment.h)\<close>

text \<open>
  Where the C++ aborts the process (a failed \<^verbatim>\<open>assert\<close>, a null
  \<^verbatim>\<open>shared_ptr\<close> that is dereferenced, a crash inside the engine), the model
  returns the abort as a value.
\<close>

datatype failure = AssertionFailed | NullDereference | EngineCrash

text \<open>
  \<^verbatim>\<open>v8::Isolate\<close> is the engine's own object. Of its state the environment's code
  touches one thing, the request made by \<^verbatim>\<open>TerminateExecution()\<close>, which the
  engine keeps as a pending flag.
\<close>

record v8_Isolate =
  termination_pending :: bool

definition TerminateExecution :: "v8_Isolate \<Rightarrow> v8_Isolate" where
  "TerminateExecution i = i\<lparr>termination_pending := True\<rparr>"

text \<open>
  An environment is named by its address. \<^verbatim>\<open>IsolateHolder\<close> (holder.h) owns the
  environment through the \<^verbatim>\<open>shared_ptr\<close> that \<^verbatim>\<open>Terminate\<close> resets:
  \<^verbatim>\<open>holder->isolate\<close>, here \<open>holder_isolate\<close>, with \<open>None\<close> for the empty pointer.
\<close>

type_synonym env_ref = nat

record IsolateHolder =
  holder_isolate :: "env_ref option"

text \<open>
  \<^verbatim>\<open>v8::HeapStatistics\<close> is the engine's; \<open>used_heap_size\<close> and
  \<open>external_memory\<close> are the two figures that the specification's heap guard reads.
\<close>

record HeapStatistics =
  used_heap_size :: nat
  external_memory :: nat

text \<open>
  The data members of \<^verbatim>\<open>IsolateEnvironment\<close> that the modelled operations read or
  write, under the names of the header. \<open>'v\<close> is the type of the engine's value handles;
  a \<^verbatim>\<open>v8::Eternal<T>\<close> is empty (\<open>None\<close>) or holds a handle; \<open>holder\<close> is a
  \<^verbatim>\<open>shared_ptr\<close>, empty until the factory \<^verbatim>\<open>New\<close> installs it.
  \<^verbatim>\<open>terminated\<close> is a \<^verbatim>\<open>std::atomic<bool>\<close>, read and written here by one
  thread at a time. The scheduler, the inspector agent, the contexts, the allocator, the
  snapshot and the weak-callback table take no part in the operations below.
\<close>

record 'v IsolateEnvironment =
  isolate :: v8_Isolate
  holder :: "IsolateHolder option"
  memory_limit :: nat
  hit_memory_limit :: bool
  root :: bool
  last_heap :: HeapStatistics
  rejected_promise_error :: "'v option"
  specifics :: "'v option list"
  terminated :: bool

subsection \<open>\<^verbatim>\<open>IsolateSpecific<T>\<close>: per-isolate keyed slots\<close>

text \<open>
  \<^verbatim>\<open>Deref\<close> and \<^verbatim>\<open>Set\<close> work on the environment of
  \<^verbatim>\<open>ExecutorLock::GetCurrent()\<close>, which is the argument \<open>e\<close> here: the caller holds
  that environment's executor lock. \<^verbatim>\<open>Deref\<close> returns the empty
  \<^verbatim>\<open>MaybeLocal\<close> (\<open>None\<close>) when the vector is too short or the slot is empty.
\<close>

definition Deref :: "nat \<Rightarrow> 'v IsolateEnvironment \<Rightarrow> 'v option" where
  "Deref key e =
     (if length (specifics e) > key then
        (if specifics e ! key \<noteq> None then specifics e ! key else None)
      else None)"

text \<open>
  The loop of \<^verbatim>\<open>Set\<close>:
  \<^verbatim>\<open>while ((isolate.*S).size() <= key) (isolate.*S).emplace_back(std::make_unique<v8::Eternal<L>>());\<close>
\<close>

function emplace_back_while :: "nat \<Rightarrow> 'v option list \<Rightarrow> 'v option list" where
  "emplace_back_while key s =
     (if length s \<le> key then emplace_back_while key (s @ [None]) else s)"
  by pat_completeness auto
termination
  by (relation "measure (\<lambda>(key, s). Suc key - length s)") auto

declare emplace_back_while.simps [simp del]

definition Set :: "nat \<Rightarrow> 'v \<Rightarrow> 'v IsolateEnvironment \<Rightarrow> 'v IsolateEnvironment" where
  "Set key handle e =
     (let s = (if length (specifics e) \<le> key then emplace_back_while key (specifics e)
               else specifics e)
      in e\<lparr>specifics := s[key := Some handle]\<rparr>)"

text \<open>A run of \<^verbatim>\<open>Set\<close> calls, first to last, each with its key and handle.\<close>

fun Set_all :: "(nat \<times> 'v) list \<Rightarrow> 'v IsolateEnvironment \<Rightarrow> 'v IsolateEnvironment" where
  "Set_all [] e = e"
| "Set_all ((key, handle) # ws) e = Set_all ws (Set key handle e)"

text \<open>
  The factory \<^verbatim>\<open>New\<close> makes the environment, makes its holder over it, and
  installs the holder: \<^verbatim>\<open>isolate->holder = holder\<close>. \<open>e\<close> is the environment as its
  constructor left it and \<open>address\<close> where it lives.
\<close>

definition New :: "env_ref \<Rightarrow> 'v IsolateEnvironment \<Rightarrow> 'v IsolateEnvironment" where
  "New address e = e\<lparr>holder := Some \<lparr>holder_isolate = Some address\<rparr>\<rparr>"

subsection \<open>\<^verbatim>\<open>Terminate\<close>\<close>

text \<open>
  \<^verbatim>\<open>assert(!root); terminated = true; isolate->TerminateExecution(); holder->isolate.reset();\<close>
\<close>

definition Terminate :: "'v IsolateEnvironment \<Rightarrow> failure + 'v IsolateEnvironment" where
  "Terminate e =
     (if root e then Inl AssertionFailed
      else case holder e of
        None \<Rightarrow> Inl NullDereference
      | Some h \<Rightarrow>
          Inr (e\<lparr>terminated := True,
                 isolate := TerminateExecution (isolate e),
                 holder := Some (h\<lparr>holder_isolate := None\<rparr>)\<rparr>))"

definition DidHitMemoryLimit :: "'v IsolateEnvironment \<Rightarrow> bool" where
  "DidHitMemoryLimit e = hit_memory_limit e"

text \<open>
  The members as the header's default member initialisers leave them
  (\<^verbatim>\<open>memory_limit = 0\<close>, \<^verbatim>\<open>hit_memory_limit = false\<close>,
  \<^verbatim>\<open>last_heap {}\<close>, \<^verbatim>\<open>terminated { false }\<close>, empty vectors and pointers);
  \<open>root\<close> has no initialiser and is given.
\<close>

definition default_members :: "bool \<Rightarrow> 'v IsolateEnvironment" where
  "default_members r =
     \<lparr>isolate = \<lparr>termination_pending = False\<rparr>, holder = None, memory_limit = 0,
      hit_memory_limit = False, root = r,
      last_heap = \<lparr>used_heap_size = 0, external_memory = 0\<rparr>,
      rejected_promise_error = None, specifics = [], terminated = False\<rparr>"

section \<open>Helpers of src/isolate/util.h\<close>

text \<open>
  \<^verbatim>\<open>js_runtime_error\<close> is the C++ exception that travels beside a JavaScript
  exception pending in the isolate. A call ends in one of three ways: it returns, it
  throws (\<open>'e\<close> is what the thrower leaves behind), or the process aborts.
\<close>

datatype js_runtime_error = js_runtime_error

datatype ('e, 'a) result = Return 'a | Throw 'e | Abort failure

text \<open>
  \<^verbatim>\<open>Unmaybe\<close>: a \<^verbatim>\<open>MaybeLocal<T>\<close> is an option; the empty one throws.
\<close>

definition Unmaybe :: "'a option \<Rightarrow> (js_runtime_error, 'a) result" where
  "Unmaybe handle = (case handle of Some local \<Rightarrow> Return local | None \<Rightarrow> Throw js_runtime_error)"

text \<open>
  An engine string is a sequence of 16-bit code units. Two things of the engine are
  parameters of the model: \<^verbatim>\<open>v8::String::kMaxLength\<close>, the longest string the
  engine makes, and the conversion \<^verbatim>\<open>v8::String::Utf8Value\<close> from code units to
  bytes.
\<close>

type_synonym js_string = "16 word list"

record engine =
  kMaxLength :: nat
  Utf8Value :: "js_string \<Rightarrow> string"

text \<open>
  A \<^verbatim>\<open>const char*\<close> is read up to its first NUL: so are
  \<^verbatim>\<open>*v8::String::Utf8Value(...)\<close> when a \<^verbatim>\<open>std::string\<close> is built from it,
  and \<^verbatim>\<open>.c_str()\<close> when \<^verbatim>\<open>v8_string\<close> reads it.
\<close>

definition c_str :: "string \<Rightarrow> string" where
  "c_str s = takeWhile (\<lambda>c. c \<noteq> CHR 0x00) s"

text \<open>
  \<^verbatim>\<open>v8::String::NewFromOneByte\<close> makes one code unit of each byte.
  \<^verbatim>\<open>v8_string\<close> calls it without a length, so the engine measures the text itself,
  and on a text longer than \<^verbatim>\<open>kMaxLength\<close> it aborts the process.
  \<^verbatim>\<open>v8_string\<close> is \<^verbatim>\<open>Unmaybe\<close> of the handle it returns.
\<close>

definition NewFromOneByte :: "engine \<Rightarrow> string \<Rightarrow> failure + js_string option" where
  "NewFromOneByte eng bytes =
     (if length bytes > kMaxLength eng then Inl EngineCrash else Inr (Some (map of_char bytes)))"

definition v8_string :: "engine \<Rightarrow> string \<Rightarrow> (js_runtime_error, js_string) result" where
  "v8_string eng s =
     (case NewFromOneByte eng (c_str s) of
        Inl f \<Rightarrow> Abort f
      | Inr handle \<Rightarrow> Unmaybe handle)"

text \<open>\<^verbatim>\<open>std::to_string(int)\<close>: decimal digits, a minus sign before a negative number.\<close>

function decimal :: "nat \<Rightarrow> string" where
  "decimal n = (if n < 10 then [char_of (48 + n)] else decimal (n div 10) @ [char_of (48 + n mod 10)])"
  by pat_completeness auto
termination
  by (relation "measure id") auto

declare decimal.simps [simp del]

definition to_string :: "int \<Rightarrow> string" where
  "to_string i = (if i < 0 then CHR ''-'' # decimal (nat (- i)) else decimal (nat i))"

subsection \<open>\<^verbatim>\<open>RunWithAnnotatedErrors\<close>\<close>

text \<open>
  What the function reads of the \<^verbatim>\<open>v8::Message\<close>: its resource name, taken as the
  string that \<^verbatim>\<open>Utf8Value\<close> converts, its line number and its start column. The
  last two are \<^verbatim>\<open>Maybe<int>\<close>: a C++ \<^verbatim>\<open>int\<close> is a 32-bit word read as a
  signed number, and \<^verbatim>\<open>start_column + 1\<close> wraps from \<^verbatim>\<open>INT_MAX\<close> to
  \<^verbatim>\<open>INT_MIN\<close>, as the compiled code does.
\<close>

record Message =
  GetScriptResourceName :: js_string
  GetLineNumber :: "32 word option"
  GetStartColumn :: "32 word option"

text \<open>
  What the function reads of the caught value: whether it is an object, and how the
  object's \<^verbatim>\<open>message\<close> property answers \<^verbatim>\<open>Object::Get\<close> and
  \<^verbatim>\<open>Object::Set\<close>. Three shapes of the property are modelled: an ordinary writable
  data property that holds a string; a read-only one that holds a string, as on a frozen
  object; and an accessor whose getter throws a value. A property that holds no string,
  and an accessor with a setter, are outside the model.
\<close>

datatype js_value = NotObject | Object message_property
  and message_property = Writable js_string | ReadOnly js_string | GetterThrows js_value

text \<open>
  \<^verbatim>\<open>Object::Get\<close> returns the string, or the empty \<^verbatim>\<open>MaybeLocal\<close> when the
  getter throws: then the \<^verbatim>\<open>v8::TryCatch\<close> holds what the getter threw (\<open>Inl\<close>).
\<close>

fun Object_Get :: "message_property \<Rightarrow> js_value + js_string" where
  "Object_Get (Writable s) = Inr s"
| "Object_Get (ReadOnly s) = Inr s"
| "Object_Get (GetterThrows thrown) = Inl thrown"

text \<open>
  \<^verbatim>\<open>Object::Set\<close> returns a \<^verbatim>\<open>Maybe<bool>\<close>, which is a \<^verbatim>\<open>Just\<close> in the three
  shapes; \<^verbatim>\<open>Unmaybe\<close> unwraps it and the code drops the boolean. A read-only
  property is left as it was.
\<close>

fun Object_Set :: "message_property \<Rightarrow> js_string \<Rightarrow> bool \<times> message_property" where
  "Object_Set (Writable old) s = (True, Writable s)"
| "Object_Set (ReadOnly old) s = (False, ReadOnly old)"
| "Object_Set (GetterThrows thrown) s = (False, GetterThrows thrown)"

text \<open>
  The callee \<^verbatim>\<open>fn\<close> is given by how it ends: it returns a value, or it throws
  \<^verbatim>\<open>js_runtime_error\<close>, and then the \<^verbatim>\<open>v8::TryCatch\<close> has caught an
  exception with its message, or has caught nothing (\<open>None\<close>).
\<close>

datatype 'a fn_outcome = Returns 'a | Throws "(js_value \<times> Message) option"

text \<open>
  The text that becomes the new \<^verbatim>\<open>message\<close>:
  \<^verbatim>\<open>message_str + " [" + decorator + "]"\<close> with \<^verbatim>\<open>decorator\<close> the resource
  name, \<^verbatim>\<open>":"\<close>, the line, \<^verbatim>\<open>":"\<close> and the start column plus one.
\<close>

definition decorator :: "engine \<Rightarrow> Message \<Rightarrow> 32 word \<Rightarrow> 32 word \<Rightarrow> string" where
  "decorator eng m linenum start_column =
     c_str (Utf8Value eng (GetScriptResourceName m)) @ '':'' @ to_string (sint linenum) @
     '':'' @ to_string (sint (start_column + 1))"

definition decorated :: "engine \<Rightarrow> Message \<Rightarrow> 32 word \<Rightarrow> 32 word \<Rightarrow> js_string \<Rightarrow> string" where
  "decorated eng m linenum start_column msg =
     c_str (Utf8Value eng msg) @ '' ['' @ decorator eng m linenum start_column @ '']''"

text \<open>
  The function. Both asserts stand in the inner \<^verbatim>\<open>try\<close>; an \<^verbatim>\<open>Unmaybe\<close>
  that throws there is caught by the inner \<^verbatim>\<open>catch\<close>, which rethrows what the
  \<^verbatim>\<open>v8::TryCatch\<close> holds at that moment; so does the \<^verbatim>\<open>throw\<close> after the
  decoration. \<open>Throw\<close> carries the value that \<^verbatim>\<open>try_catch.ReThrow()\<close> hands on.
  The line and the column are read first, then the resource name, then the message;
  the new string is made before \<^verbatim>\<open>Object::Set\<close> is called.
\<close>

definition RunWithAnnotatedErrors :: "engine \<Rightarrow> 'a fn_outcome \<Rightarrow> (js_value, 'a) result" where
  "RunWithAnnotatedErrors eng fn =
     (case fn of
        Returns v \<Rightarrow> Return v
      | Throws None \<Rightarrow> Abort AssertionFailed
      | Throws (Some (NotObject, m)) \<Rightarrow> Abort AssertionFailed
      | Throws (Some (Object error, m)) \<Rightarrow>
          (case GetLineNumber m of
             None \<Rightarrow> Throw (Object error)
           | Some linenum \<Rightarrow>
               (case GetStartColumn m of
                  None \<Rightarrow> Throw (Object error)
                | Some start_column \<Rightarrow>
                    (case Object_Get error of
                       Inl thrown \<Rightarrow> Throw thrown
                     | Inr message_str \<Rightarrow>
                         (case v8_string eng (decorated eng m linenum start_column message_str) of
                            Return s \<Rightarrow> Throw (Object (snd (Object_Set error s)))
                          | Throw _ \<Rightarrow> Throw (Object error)
                          | Abort f \<Rightarrow> Abort f)))))"



text \<open>
  An engine for worked examples: its \<^verbatim>\<open>Utf8Value\<close> is UTF-8 on code units below
  0x80 (one byte each, the unit itself) and writes \<^verbatim>\<open>?\<close> for any other unit.
\<close>

definition ascii_engine :: engine where
  "ascii_engine =
     \<lparr>kMaxLength = 268435440,
      Utf8Value = map (\<lambda>u. if u < 128 then char_of (unat u) else CHR ''?'')\<rparr>"

section \<open>Transferable copies (src/external_copy.h)\<close>

subsection \<open>The string copy\<close>

text \<open>
  \<^verbatim>\<open>ExternalCopyTemplate<v8::String, std::shared_ptr<std::vector<uint16_t>>>\<close> holds the
  shared vector \<^verbatim>\<open>value\<close>; \<^verbatim>\<open>ExternalString\<close> is the resource class that lends
  the same vector to the engine, with \<^verbatim>\<open>data()\<close> and \<^verbatim>\<open>length()\<close>.
\<close>

datatype ExternalCopyString = ExternalCopyString (value': "16 word list")

datatype ExternalString = ExternalString (data: "16 word list")

definition ExternalString_length :: "ExternalString \<Rightarrow> nat" where
  "ExternalString_length r = length (data r)"

text \<open>
  The engine's strings, as far as \<^verbatim>\<open>CopyInto\<close> makes them: the canonical empty
  string of \<^verbatim>\<open>v8::String::Empty\<close>, and an external two-byte string over a resource.
\<close>

datatype v8_String = String_Empty | ExternalTwoByte ExternalString

text \<open>
  \<^verbatim>\<open>v8::String::NewExternalTwoByte\<close> is the engine's. The source says of it:
  ``v8 crashes if you send it an empty external string''; beyond
  \<^verbatim>\<open>kMaxLength\<close> it returns the empty \<^verbatim>\<open>MaybeLocal\<close>.
\<close>

definition NewExternalTwoByte :: "engine \<Rightarrow> ExternalString \<Rightarrow> failure + v8_String option" where
  "NewExternalTwoByte eng resource =
     (if ExternalString_length resource = 0 then Inl EngineCrash
      else if ExternalString_length resource > kMaxLength eng then Inr None
      else Inr (Some (ExternalTwoByte resource)))"

definition ExternalCopyString_CopyInto ::
  "engine \<Rightarrow> ExternalCopyString \<Rightarrow> bool \<Rightarrow> (js_runtime_error, v8_String) result" where
  "ExternalCopyString_CopyInto eng c transfer_in =
     (if value' c = [] then Return String_Empty
      else case NewExternalTwoByte eng (ExternalString (value' c)) of
        Inl f \<Rightarrow> Abort f
      | Inr handle \<Rightarrow> Unmaybe handle)"




definition example_message :: Message where
  "example_message =
     \<lparr>GetScriptResourceName = map of_char ''a.js'', GetLineNumber = Some 1, GetStartColumn = Some 0\<rparr>"



section \<open>Operations whose bodies are defined outside the headers\<close>

text \<open>
  The headers declare the following operations; their bodies are in
  \<^verbatim>\<open>environment.cc\<close> and \<^verbatim>\<open>external_copy.cc\<close>. Each is modelled from the
  specification's description of it, which the definition's text quotes.
\<close>

subsection \<open>The executor lock\<close>

text \<open>
  The header gives the members: the thread-local \<^verbatim>\<open>current\<close>, and in each lock
  object \<^verbatim>\<open>last\<close> and the engine's \<^verbatim>\<open>v8::Locker locker\<close> (with the isolate and
  handle scopes, which follow the locker). A thread's state is its \<^verbatim>\<open>current\<close> and
  its live lock objects, innermost first: they are scoped objects, destroyed in the
  reverse order of their construction.
\<close>

record ExecutorLock =
  last' :: "env_ref option"
  locker :: env_ref

record thread =
  current :: "env_ref option"
  locks :: "ExecutorLock list"

definition GetCurrent :: "thread \<Rightarrow> env_ref option" where
  "GetCurrent t = current t"

text \<open>
  Modelled from the spec: the constructor \<^verbatim>\<open>ExecutorLock(IsolateEnvironment& env)\<close>,
  whose body is not in the header. ``On construction: takes the engine's coarse lock for
  this isolate, enters it, opens a handle scope, and swaps the \<^verbatim>\<open>current\<close>
  thread-local from whatever it was (typically none or the root) to this environment,
  remembering the previous value.''
\<close>

definition ExecutorLock_ctor :: "env_ref \<Rightarrow> thread \<Rightarrow> thread" where
  "ExecutorLock_ctor env t =
     t\<lparr>current := Some env, locks := \<lparr>last' = current t, locker = env\<rparr> # locks t\<rparr>"

text \<open>
  Modelled from the spec: the destructor \<^verbatim>\<open>~ExecutorLock()\<close>, whose body is not in the
  header. ``On destruction: restores the previous value, closes the handle scope, exits,
  and releases the engine lock.'' It destroys the innermost live lock.
\<close>

definition ExecutorLock_dtor :: "thread \<Rightarrow> thread" where
  "ExecutorLock_dtor t =
     (case locks t of
        [] \<Rightarrow> t
      | lock # outer \<Rightarrow> t\<lparr>current := last' lock, locks := outer\<rparr>)"

text \<open>
  The code a thread runs, as far as locks go: a step that takes no lock, a step that
  throws, a sequence, and a block \<^verbatim>\<open>{ ExecutorLock lock(env); ... }\<close>. Leaving the block
  runs the destructor, whether the block ends or an exception leaves it.
\<close>

datatype code = Step | Raise | Seq code code | Scope env_ref code

text \<open>
  A run returns whether it ended without an exception, the thread's state after it, and
  the states in which the thread made its steps.
\<close>

fun exec :: "code \<Rightarrow> thread \<Rightarrow> bool \<times> thread \<times> thread list" where
  "exec Step t = (True, t, [t])"
| "exec Raise t = (False, t, [t])"
| "exec (Seq c1 c2) t =
     (case exec c1 t of
        (True, t1, seen1) \<Rightarrow> (case exec c2 t1 of (ok, t2, seen2) \<Rightarrow> (ok, t2, seen1 @ seen2))
      | (False, t1, seen1) \<Rightarrow> (False, t1, seen1))"
| "exec (Scope env c) t =
     (case exec c (ExecutorLock_ctor env t) of (ok, t1, seen) \<Rightarrow> (ok, ExecutorLock_dtor t1, seen))"

text \<open>A thread holds the executor lock of an environment while a lock object on it is live.\<close>

definition holds_lock :: "thread \<Rightarrow> env_ref \<Rightarrow> bool" where
  "holds_lock t env = (env \<in> locker ` set (locks t))"

definition current_is_innermost :: "thread \<Rightarrow> bool" where
  "current_is_innermost t =
     (case locks t of [] \<Rightarrow> True | lock # outer \<Rightarrow> current t = Some (locker lock))"

definition current_is_held :: "thread \<Rightarrow> bool" where
  "current_is_held t = (\<forall>env. GetCurrent t = Some env \<longrightarrow> holds_lock t env)"

subsection \<open>The heap guard and the callbacks\<close>

text \<open>What an operation raises to its caller.\<close>

datatype 'v raised = HeapLimit | RuntimeError 'v

text \<open>
  Modelled from the spec: \<^verbatim>\<open>GCEpilogueCallback\<close>, declared in the header.
  ``After every major GC on a non-root isolate, read heap statistics: if
  \<^verbatim>\<open>used_heap_size + external_memory > memory_limit\<close>, set
  \<^verbatim>\<open>hit_memory_limit = true\<close> and request termination. Record the latest stats as
  \<^verbatim>\<open>last_heap\<close> for use by the pre-transfer check.''
\<close>

definition GCEpilogueCallback :: "bool \<Rightarrow> HeapStatistics \<Rightarrow> 'v IsolateEnvironment \<Rightarrow> 'v IsolateEnvironment" where
  "GCEpilogueCallback major heap e =
     (if root e \<or> \<not> major then e
      else if used_heap_size heap + external_memory heap > memory_limit e
        then e\<lparr>hit_memory_limit := True, isolate := TerminateExecution (isolate e),
               last_heap := heap\<rparr>
        else e\<lparr>last_heap := heap\<rparr>)"

text \<open>
  Modelled from the spec: \<^verbatim>\<open>OOMErrorCallback\<close>, declared in the header. ``If the
  engine ever actually reports OOM (meaning the guard missed), the environment is marked
  \<^verbatim>\<open>hit_memory_limit = true\<close> and terminated.''
\<close>

definition OOMErrorCallback :: "'v IsolateEnvironment \<Rightarrow> failure + 'v IsolateEnvironment" where
  "OOMErrorCallback e = Terminate (e\<lparr>hit_memory_limit := True\<rparr>)"

text \<open>
  Modelled from the spec: \<^verbatim>\<open>PromiseRejectCallback\<close>, declared in the header. ``The
  promise-reject callback stashes the rejection as \<^verbatim>\<open>rejected_promise_error\<close> (only
  the first one between epilogues).''
\<close>

definition PromiseRejectCallback :: "'v \<Rightarrow> 'v IsolateEnvironment \<Rightarrow> 'v IsolateEnvironment" where
  "PromiseRejectCallback rejection e =
     (case rejected_promise_error e of
        None \<Rightarrow> e\<lparr>rejected_promise_error := Some rejection\<rparr>
      | Some _ \<Rightarrow> e)"

text \<open>
  Modelled from the spec: \<^verbatim>\<open>TaskEpilogue\<close>, declared in the header. ``Called by the
  worker after each task completes; raises HeapLimit if the watchdog tripped; if a
  pending unhandled promise rejection was stashed, rethrows it now as a runtime error'',
  and the rejection is then cleared.
\<close>

definition TaskEpilogue :: "'v IsolateEnvironment \<Rightarrow> 'v raised option \<times> 'v IsolateEnvironment" where
  "TaskEpilogue e =
     (if hit_memory_limit e then (Some HeapLimit, e)
      else case rejected_promise_error e of
        Some rejection \<Rightarrow> (Some (RuntimeError rejection), e\<lparr>rejected_promise_error := None\<rparr>)
      | None \<Rightarrow> (None, e))"

text \<open>
  Modelled from the spec: the check that \<^verbatim>\<open>HeapCheck\<close>'s constructor makes, declared
  in the header. ``Before materializing a transferable of
  \<^verbatim>\<open>worst_case_heap_size() = W\<close> bytes, if \<^verbatim>\<open>last_heap.used_heap + W > memory_limit\<close>,
  a minor GC is hinted; if still over, fail with HeapLimit.'' The root isolate is ``never
  heap-capped''. \<open>after_gc\<close> is what the engine reports after the hinted collection.
\<close>

definition HeapCheck :: "'v IsolateEnvironment \<Rightarrow> nat \<Rightarrow> HeapStatistics \<Rightarrow> 'v raised option" where
  "HeapCheck e expected_size after_gc =
     (if root e then None
      else if used_heap_size (last_heap e) + expected_size > memory_limit e
        then (if used_heap_size after_gc + expected_size > memory_limit e
              then Some HeapLimit else None)
        else None)"

text \<open>
  Modelled from the spec: what \<^verbatim>\<open>TransferIn\<close>, declared in the header, does to
  the environment. It ``first runs the heap guard check'' and fails with HeapLimit
  ``without mutating the destination heap'', or materialises the value in the engine's
  heap; neither is described as a write to a member of the environment.
\<close>

definition TransferIn :: "nat \<Rightarrow> HeapStatistics \<Rightarrow> 'v IsolateEnvironment \<Rightarrow> 'v raised option \<times> 'v IsolateEnvironment" where
  "TransferIn expected_size after_gc e = (HeapCheck e expected_size after_gc, e)"

text \<open>
  The operations of an environment, and a run of them. A run ends where the process
  aborts; what an operation raises goes to its caller and the run goes on.
\<close>

datatype 'v operation =
    GCEpilogue bool HeapStatistics
  | OOMError
  | PromiseReject 'v
  | TaskEpilogueOp
  | TerminateOp
  | TransferInOp nat HeapStatistics
  | SetOp nat 'v

fun step :: "'v operation \<Rightarrow> 'v IsolateEnvironment \<Rightarrow> failure + 'v IsolateEnvironment" where
  "step (GCEpilogue major heap) e = Inr (GCEpilogueCallback major heap e)"
| "step OOMError e = OOMErrorCallback e"
| "step (PromiseReject rejection) e = Inr (PromiseRejectCallback rejection e)"
| "step TaskEpilogueOp e = Inr (snd (TaskEpilogue e))"
| "step TerminateOp e = Terminate e"
| "step (TransferInOp expected_size after_gc) e = Inr (snd (TransferIn expected_size after_gc e))"
| "step (SetOp key handle) e = Inr (Set key handle e)"

fun run :: "'v operation list \<Rightarrow> 'v IsolateEnvironment \<Rightarrow> failure + 'v IsolateEnvironment" where
  "run [] e = Inr e"
| "run (operation # rest) e =
     (case step operation e of Inl f \<Rightarrow> Inl f | Inr e' \<Rightarrow> run rest e')"

subsection \<open>The array-buffer copy\<close>

text \<open>
  An isolate's array buffers: each handle has a backing store, which is detached once
  the buffer is neutered; \<open>next_buffer\<close> is the handle the next allocation gets.
\<close>

datatype backing_store = Attached "8 word list" | Detached

record buffers =
  array_buffers :: "nat \<Rightarrow> backing_store"
  next_buffer :: nat

definition ByteLength :: "buffers \<Rightarrow> nat \<Rightarrow> nat" where
  "ByteLength h buffer = (case array_buffers h buffer of Attached bytes \<Rightarrow> length bytes | Detached \<Rightarrow> 0)"

definition contents :: "buffers \<Rightarrow> nat \<Rightarrow> 8 word list" where
  "contents h buffer = (case array_buffers h buffer of Attached bytes \<Rightarrow> bytes | Detached \<Rightarrow> [])"

text \<open>
  The members of \<^verbatim>\<open>ExternalCopyArrayBuffer\<close> in the header are \<^verbatim>\<open>ptr_t value\<close>, the
  owned region, and \<^verbatim>\<open>const size_t length\<close>.
\<close>

record ExternalCopyArrayBuffer =
  ab_value :: "8 word list"
  ab_length :: nat

text \<open>
  Modelled from the spec: the accessors \<^verbatim>\<open>Data()\<close> and \<^verbatim>\<open>Length()\<close>, declared in
  the header: the ``owned raw byte region plus length''.
\<close>

definition Data :: "ExternalCopyArrayBuffer \<Rightarrow> 8 word list" where
  "Data c = ab_value c"

definition Length :: "ExternalCopyArrayBuffer \<Rightarrow> nat" where
  "Length c = ab_length c"

text \<open>
  Modelled from the spec: \<^verbatim>\<open>ExternalCopyArrayBuffer::Transfer\<close>, declared in the
  header: the ``\<^verbatim>\<open>transfer\<close> constructor that moves ownership out of a source
  array-buffer, leaving the source detached''.
\<close>

definition Transfer :: "nat \<Rightarrow> buffers \<Rightarrow> ExternalCopyArrayBuffer \<times> buffers" where
  "Transfer buffer h =
     (\<lparr>ab_value = contents h buffer, ab_length = ByteLength h buffer\<rparr>,
      h\<lparr>array_buffers := (array_buffers h)(buffer := Detached)\<rparr>)"

text \<open>
  Modelled from the spec: \<^verbatim>\<open>ExternalCopy::Copy\<close> on an array buffer, declared in the
  header: the copy holds the buffer's bytes, and ``if \<^verbatim>\<open>transfer_out\<close> is true, array
  buffers reachable from \<^verbatim>\<open>value\<close> are moved (source detached) rather than copied''.
\<close>

definition Copy_ArrayBuffer :: "nat \<Rightarrow> bool \<Rightarrow> buffers \<Rightarrow> ExternalCopyArrayBuffer \<times> buffers" where
  "Copy_ArrayBuffer buffer transfer_out h =
     (if transfer_out then Transfer buffer h
      else (\<lparr>ab_value = contents h buffer, ab_length = ByteLength h buffer\<rparr>, h))"

text \<open>
  Modelled from the spec: \<^verbatim>\<open>ExternalCopyArrayBuffer::CopyInto\<close>, declared in the
  header: it ``materializes into the current isolate'', here as a new array buffer over
  the copy's bytes.
\<close>

definition ExternalCopyArrayBuffer_CopyInto :: "ExternalCopyArrayBuffer \<Rightarrow> buffers \<Rightarrow> nat \<times> buffers" where
  "ExternalCopyArrayBuffer_CopyInto c h =
     (next_buffer h,
      h\<lparr>array_buffers := (array_buffers h)(next_buffer h := Attached (take (ab_length c) (ab_value c))),
        next_buffer := Suc (next_buffer h)\<rparr>)"

text \<open>
  An example: an environment with a limit of 100 bytes whose major collection leaves
  110 bytes in use, and the operations that follow.
\<close>

definition example_environment :: "nat IsolateEnvironment" where
  "example_environment =
     New 1 ((default_members False)\<lparr>memory_limit := 100\<rparr>)"

definition example_operations :: "nat operation list" where
  "example_operations =
     [TaskEpilogueOp, PromiseReject 5, TransferInOp 24 \<lparr>used_heap_size = 10, external_memory = 0\<rparr>,
      SetOp 0 7, GCEpilogue True \<lparr>used_heap_size = 10, external_memory = 0\<rparr>, TerminateOp,
      TaskEpilogueOp]"

text \<open>
  An example: a source isolate whose buffer 0 holds the bytes 1, 2, 3, and a destination
  isolate with no buffer yet.
\<close>

definition example_source :: buffers where
  "example_source = \<lparr>array_buffers = (\<lambda>_. Detached)(0 := Attached [1, 2, 3]), next_buffer = 1\<rparr>"

definition example_destination :: buffers where
  "example_destination = \<lparr>array_buffers = (\<lambda>_. Detached), next_buffer = 0\<rparr>"

section \<open>Per-isolate keyed slots\<close>

text \<open>The loop appends empty slots until the vector has \<open>key + 1\<close> of them.\<close>

lemma emplace_back_while_eq:
  "emplace_back_while key s = s @ replicate (Suc key - length s) None"
proof (induction key s rule: emplace_back_while.induct)
  case (1 key s)
  show ?case
  proof (cases "length s \<le> key")
    case True
    then have "Suc key - length s = Suc (key - length s)" by simp
    with True "1" show ?thesis
      by (subst emplace_back_while.simps) (simp add: replicate_app_Cons_same)
  next
    case False
    then show ?thesis by (subst emplace_back_while.simps) simp
  qed
qed

lemma specifics_Set:
  "specifics (Set key h e) =
     (if length (specifics e) \<le> key
      then specifics e @ replicate (key - length (specifics e)) None @ [Some h]
      else (specifics e)[key := Some h])"
proof (cases "length (specifics e) \<le> key")
  case True
  define ys where "ys = specifics e @ replicate (key - length (specifics e)) None"
  have len: "length ys = key"
    using True by (simp add: ys_def)
  have "replicate (Suc key - length (specifics e)) (None :: 'a option) =
      replicate (key - length (specifics e)) None @ [None]"
    using True by (simp add: Suc_diff_le replicate_append_same)
  then have "emplace_back_while key (specifics e) = ys @ [None]"
    by (simp only: emplace_back_while_eq ys_def append_assoc)
  then have "specifics (Set key h e) = (ys @ [None])[length ys := Some h]"
    using True by (simp add: Set_def len)
  also have "\<dots> = ys @ [Some h]"
    by (simp only: list_update_length)
  finally show ?thesis
    using True by (simp add: ys_def)
next
  case False
  then show ?thesis by (simp add: Set_def)
qed

lemma Deref_Set_same: "Deref key (Set key h e) = Some h"
  by (simp add: Deref_def specifics_Set nth_append)

lemma Deref_Set_other:
  assumes "key' \<noteq> key"
  shows "Deref key' (Set key h e) = Deref key' e"
proof (cases "length (specifics e) \<le> key")
  case True
  show ?thesis
  proof (cases "key' < length (specifics e)")
    case True
    with \<open>length (specifics e) \<le> key\<close> show ?thesis
      by (simp add: Deref_def specifics_Set nth_append)
  next
    case False
    with True assms show ?thesis
      by (auto simp: Deref_def specifics_Set nth_append nth_Cons')
  qed
next
  case False
  with assms show ?thesis
    by (simp add: Deref_def specifics_Set)
qed

lemma Deref_Set_all_other:
  "key \<notin> fst ` set ws \<Longrightarrow> Deref key (Set_all ws e) = Deref key e"
proof (induction ws arbitrary: e)
  case Nil
  then show ?case by simp
next
  case (Cons w ws)
  obtain k h where w: "w = (k, h)" by (cases w)
  with Cons.prems have "key \<noteq> k" and "key \<notin> fst ` set ws" by auto
  then show ?case
    using Cons.IH [of "Set k h e"] by (simp add: w Deref_Set_other)
qed

text \<open>
  Claim C6. A slot whose key was never set in an environment reads empty: starting from
  the empty vector of a new environment, after any run of \<^verbatim>\<open>Set\<close> calls on
  other keys, \<^verbatim>\<open>Deref\<close> of the key returns the empty
  \<^verbatim>\<open>MaybeLocal\<close>. \<^verbatim>\<open>Set\<close> with a vector of size at most \<open>key\<close>
  extends it with empty slots up to index \<open>key\<close> and stores the handle there; a
  \<^verbatim>\<open>Deref\<close> of the same key then returns the handle, and a
  \<^verbatim>\<open>Deref\<close> of any other key that read empty before still reads empty.
\<close>

theorem IsolateSpecific_slots:
  "(specifics fresh = [] \<and> unset \<notin> fst ` set ws \<longrightarrow> Deref unset (Set_all ws fresh) = None) \<and>
   (length (specifics e) \<le> key \<longrightarrow>
      specifics (Set key h e) =
        specifics e @ replicate (key - length (specifics e)) None @ [Some h] \<and>
      Deref key (Set key h e) = Some h \<and>
      (\<forall>key'. key' \<noteq> key \<and> Deref key' e = None \<longrightarrow> Deref key' (Set key h e) = None))"
proof (intro conjI impI allI)
  assume "specifics fresh = [] \<and> unset \<notin> fst ` set ws"
  then have "Deref unset (Set_all ws fresh) = Deref unset fresh" and "specifics fresh = []"
    by (simp_all add: Deref_Set_all_other)
  then show "Deref unset (Set_all ws fresh) = None"
    by (simp add: Deref_def)
next
  assume "length (specifics e) \<le> key"
  then show "specifics (Set key h e) =
      specifics e @ replicate (key - length (specifics e)) None @ [Some h]"
    by (simp add: specifics_Set)
next
  show "Deref key (Set key h e) = Some h"
    by (rule Deref_Set_same)
next
  fix key'
  assume "key' \<noteq> key \<and> Deref key' e = None"
  then show "Deref key' (Set key h e) = None"
    by (simp add: Deref_Set_other)
qed

text \<open>
  The theorem at a new environment: keys 0 and 2 are set, key 1 never is.
\<close>

theorem IsolateSpecific_slots_witness:
  "specifics (default_members False :: nat IsolateEnvironment) = [] \<and>
   (1::nat) \<notin> fst ` set [(0, 10::nat), (2, 30)] \<and>
   Deref 1 (Set_all [(0, 10), (2, 30)] (default_members False :: nat IsolateEnvironment)) = None \<and>
   length (specifics (default_members False :: nat IsolateEnvironment)) \<le> 2 \<and>
   specifics (Set 2 30 (default_members False :: nat IsolateEnvironment)) = [None, None, Some 30] \<and>
   Deref 2 (Set 2 30 (default_members False :: nat IsolateEnvironment)) = Some 30 \<and>
   Deref 1 (default_members False :: nat IsolateEnvironment) = None \<and>
   Deref 1 (Set 2 30 (default_members False :: nat IsolateEnvironment)) = None"
proof -
  define D :: "nat IsolateEnvironment" where "D = default_members False"
  have empty: "specifics D = []"
    by (simp add: D_def default_members_def)
  have unset: "(1::nat) \<notin> fst ` set [(0, 10::nat), (2, 30)]"
    by simp
  have short: "length (specifics D) \<le> 2"
    by (simp add: empty)
  have before: "Deref 1 D = None"
    by (simp add: Deref_def empty)
  note slots = IsolateSpecific_slots [where fresh = D and unset = 1 and ws = "[(0, 10), (2, 30)]"
      and e = D and key = 2 and h = 30]
  from slots empty unset have never: "Deref 1 (Set_all [(0, 10), (2, 30)] D) = None"
    by blast
  from slots short have written: "specifics (Set 2 30 D) =
      specifics D @ replicate (2 - length (specifics D)) None @ [Some 30]"
    and same: "Deref 2 (Set 2 30 D) = Some 30"
    and others: "\<forall>key'. key' \<noteq> 2 \<and> Deref key' D = None \<longrightarrow> Deref key' (Set 2 30 D) = None"
    by blast+
  from others before have other: "Deref 1 (Set 2 30 D) = None"
    by simp
  from written have "specifics (Set 2 30 D) = [None, None, Some 30]"
    by (simp add: empty numeral_2_eq_2)
  with empty unset never short same before other show ?thesis
    unfolding D_def by blast
qed

section \<open>Termination\<close>

text \<open>
  Claim C4. On an environment that is not the root and has its holder installed,
  \<^verbatim>\<open>Terminate\<close> sets \<open>terminated\<close>, asks the engine to terminate execution
  and empties the holder's pointer to the environment, leaving the memory-limit flag and
  the slots as they were; a second call returns the state of the first. On the root
  environment the assertion \<^verbatim>\<open>assert(!root)\<close> fails.
\<close>

theorem Terminate_idempotent:
  "(\<not> root e \<and> holder e = Some h \<longrightarrow>
      (\<exists>e1. Terminate e = Inr e1 \<and> terminated e1 \<and> termination_pending (isolate e1) \<and>
            holder e1 = Some (h\<lparr>holder_isolate := None\<rparr>) \<and>
            hit_memory_limit e1 = hit_memory_limit e \<and> specifics e1 = specifics e \<and>
            Terminate e1 = Inr e1)) \<and>
   (root e \<longrightarrow> Terminate e = Inl AssertionFailed)"
  by (simp add: Terminate_def TerminateExecution_def)

text \<open>
  The theorem at an environment that the factory made at address 1, and at a root
  environment.
\<close>

theorem Terminate_idempotent_witness:
  "\<not> root (New 1 (default_members False :: nat IsolateEnvironment)) \<and>
   (\<exists>e1. Terminate (New 1 (default_members False :: nat IsolateEnvironment)) = Inr e1 \<and>
      terminated e1 \<and> termination_pending (isolate e1) \<and>
      holder e1 = Some \<lparr>holder_isolate = None\<rparr> \<and> Terminate e1 = Inr e1) \<and>
   root (default_members True :: nat IsolateEnvironment) \<and>
   Terminate (default_members True :: nat IsolateEnvironment) = Inl AssertionFailed"
  using Terminate_idempotent [of "New 1 (default_members False :: nat IsolateEnvironment)"
      "\<lparr>holder_isolate = Some 1\<rparr>"]
    Terminate_idempotent [of "default_members True :: nat IsolateEnvironment" "\<lparr>holder_isolate = Some 1\<rparr>"]
  by (auto simp: default_members_def New_def)

section \<open>Annotated errors\<close>

text \<open>
  The decorated text has no NUL byte, so \<^verbatim>\<open>v8_string\<close> reads all of it, and the
  string made of it has no zero code unit.
\<close>

lemma char_of_digit_not_NUL: "k < 10 \<Longrightarrow> char_of (48 + k :: nat) \<noteq> CHR 0x00"
proof
  assume k: "k < 10" and "char_of (48 + k) = CHR 0x00"
  then have "(of_char (char_of (48 + k)) :: nat) = of_char (CHR 0x00)" by simp
  then have "(48 + k) mod 256 = (0::nat)" by simp
  with k show False by simp
qed

lemma decimal_no_NUL: "CHR 0x00 \<notin> set (decimal n)"
proof (induction n rule: decimal.induct)
  case (1 n)
  show ?case
  proof (cases "n < 10")
    case True
    then show ?thesis
      using char_of_digit_not_NUL [of n] by (subst decimal.simps) auto
  next
    case False
    have "n mod 10 < 10" by simp
    then have "char_of (48 + n mod 10) \<noteq> CHR 0x00" by (rule char_of_digit_not_NUL)
    with False "1" show ?thesis
      by (subst decimal.simps) auto
  qed
qed

lemma decimal_not_Nil: "decimal n \<noteq> []"
  by (subst decimal.simps) simp

lemma to_string_no_NUL: "CHR 0x00 \<notin> set (to_string i)"
  by (simp add: to_string_def decimal_no_NUL)

lemma c_str_no_NUL: "CHR 0x00 \<notin> set (c_str s)"
  unfolding c_str_def by (auto dest: set_takeWhileD)

lemma c_str_id: "CHR 0x00 \<notin> set s \<Longrightarrow> c_str s = s"
  unfolding c_str_def by (induction s) auto

lemma decorator_no_NUL: "CHR 0x00 \<notin> set (decorator eng m l c)"
  by (simp add: decorator_def c_str_no_NUL to_string_no_NUL)

lemma decorated_no_NUL: "CHR 0x00 \<notin> set (decorated eng m l c msg)"
  by (simp add: decorated_def c_str_no_NUL decorator_no_NUL)

lemma unat_of_char: "unat (of_char c :: 16 word) = of_char c"
proof -
  have "(of_char c :: 16 word) = of_nat (of_char c)"
    by (simp add: of_nat_of_char)
  then have "unat (of_char c :: 16 word) = (of_char c :: nat) mod 2 ^ LENGTH(16)"
    by (simp only: unat_of_nat)
  moreover have "(of_char c :: nat) < 2 ^ LENGTH(16)"
  proof -
    have "(of_char c :: nat) < 256" by (rule nat_of_char_less_256)
    also have "(256::nat) < 2 ^ LENGTH(16)" by simp
    finally show ?thesis .
  qed
  ultimately show ?thesis by simp
qed



lemma ascii_Utf8Value_one_byte:
  "\<forall>c\<in>set bs. (of_char c :: nat) < 128 \<Longrightarrow> Utf8Value ascii_engine (map of_char bs) = bs"
proof (induction bs)
  case Nil
  then show ?case by (simp add: ascii_engine_def)
next
  case (Cons b bs)
  then have b: "(of_char b :: nat) < 128" by simp
  then have "unat (of_char b :: 16 word) < 128" by (simp add: unat_of_char)
  then have "(of_char b :: 16 word) < 128" by (simp add: word_less_nat_alt)
  moreover have "char_of (unat (of_char b :: 16 word)) = b" by (simp add: unat_of_char)
  ultimately show ?case using Cons by (simp add: ascii_engine_def)
qed



lemma v8_string_fits:
  "CHR 0x00 \<notin> set s \<Longrightarrow> length s \<le> kMaxLength eng \<Longrightarrow> v8_string eng s = Return (map of_char s)"
  by (simp add: v8_string_def NewFromOneByte_def Unmaybe_def c_str_id)


lemma RunWithAnnotatedErrors_ReadOnly:
  assumes "GetLineNumber m = Some l" and "GetStartColumn m = Some c"
    and "length (decorated eng m l c msg) \<le> kMaxLength eng"
  shows "RunWithAnnotatedErrors eng (Throws (Some (Object (ReadOnly msg), m))) =
     Throw (Object (ReadOnly msg))"
  using assms by (simp add: RunWithAnnotatedErrors_def v8_string_fits decorated_no_NUL)

lemma RunWithAnnotatedErrors_GetterThrows:
  assumes "GetLineNumber m = Some l" and "GetStartColumn m = Some c"
  shows "RunWithAnnotatedErrors eng (Throws (Some (Object (GetterThrows thrown), m))) = Throw thrown"
  using assms by (simp add: RunWithAnnotatedErrors_def)

lemma RunWithAnnotatedErrors_too_long:
  assumes "GetLineNumber m = Some l" and "GetStartColumn m = Some c"
    and "Object_Get error = Inr msg"
    and "length (decorated eng m l c msg) > kMaxLength eng"
  shows "RunWithAnnotatedErrors eng (Throws (Some (Object error, m))) = Abort EngineCrash"
  using assms
  by (simp add: RunWithAnnotatedErrors_def v8_string_def NewFromOneByte_def c_str_id decorated_no_NUL)



text \<open>
  The worked example: \<^verbatim>\<open>x\<close> becomes \<^verbatim>\<open>x [a.js:1:1]\<close>, and in the nested call
  \<^verbatim>\<open>x [a.js:1:1] [a.js:1:7]\<close>.
\<close>

lemma digit_chars:
  "char_of (48::nat) = CHR ''0''" "char_of (49::nat) = CHR ''1''" "char_of (50::nat) = CHR ''2''"
  "char_of (51::nat) = CHR ''3''" "char_of (52::nat) = CHR ''4''" "char_of (53::nat) = CHR ''5''"
  "char_of (54::nat) = CHR ''6''" "char_of (55::nat) = CHR ''7''" "char_of (56::nat) = CHR ''8''"
  "char_of (57::nat) = CHR ''9''"
proof -
  have "(of_char (char_of (48::nat)) :: nat) = of_char CHR ''0''"
    "(of_char (char_of (49::nat)) :: nat) = of_char CHR ''1''"
    "(of_char (char_of (50::nat)) :: nat) = of_char CHR ''2''"
    "(of_char (char_of (51::nat)) :: nat) = of_char CHR ''3''"
    "(of_char (char_of (52::nat)) :: nat) = of_char CHR ''4''"
    "(of_char (char_of (53::nat)) :: nat) = of_char CHR ''5''"
    "(of_char (char_of (54::nat)) :: nat) = of_char CHR ''6''"
    "(of_char (char_of (55::nat)) :: nat) = of_char CHR ''7''"
    "(of_char (char_of (56::nat)) :: nat) = of_char CHR ''8''"
    "(of_char (char_of (57::nat)) :: nat) = of_char CHR ''9''"
    by simp_all
  then show "char_of (48::nat) = CHR ''0''" "char_of (49::nat) = CHR ''1''" "char_of (50::nat) = CHR ''2''"
  "char_of (51::nat) = CHR ''3''" "char_of (52::nat) = CHR ''4''" "char_of (53::nat) = CHR ''5''"
  "char_of (54::nat) = CHR ''6''" "char_of (55::nat) = CHR ''7''" "char_of (56::nat) = CHR ''8''"
  "char_of (57::nat) = CHR ''9''"
    by (simp_all only: of_char_eq_iff)
qed

lemma to_string_digit: "to_string 1 = ''1''" "to_string 7 = ''7''"
  by (simp_all add: to_string_def decimal.simps digit_chars)

text \<open>
  At the start column \<^verbatim>\<open>INT_MAX\<close> the sum wraps, and the decorator ends in
  \<^verbatim>\<open>-2147483648\<close>.
\<close>

lemma decorator_at_INT_MAX:
  "decorator ascii_engine example_message 1 2147483647 = ''a.js:1:-2147483648''"
proof -
  have "Utf8Value ascii_engine (map of_char ''a.js'') = ''a.js''"
    by (rule ascii_Utf8Value_one_byte) simp
  moreover have "to_string (sint (2147483647 + 1 :: 32 word)) = ''-2147483648''"
    by (simp add: to_string_def decimal.simps digit_chars)
  ultimately show ?thesis
    unfolding decorator_def example_message_def
    by (simp add: c_str_def to_string_digit)
qed







section \<open>The string copy\<close>

text \<open>
  Claim C10. A string copy whose vector is empty materialises as the engine's canonical
  empty string and makes no external string resource. The external branch is taken for
  non-empty vectors only, where the engine does not crash: the result is the external
  string over the same vector, or \<^verbatim>\<open>js_runtime_error\<close> when the vector is longer
  than \<^verbatim>\<open>kMaxLength\<close>. An external string that \<^verbatim>\<open>CopyInto\<close> returns has a
  non-empty vector, the copy's own. The engine call would crash exactly on the empty
  vector, and \<^verbatim>\<open>CopyInto\<close> never aborts.
\<close>

theorem ExternalCopyString_CopyInto_total:
  "(value' c = [] \<longrightarrow> ExternalCopyString_CopyInto eng c transfer_in = Return String_Empty) \<and>
   (value' c \<noteq> [] \<longrightarrow>
      NewExternalTwoByte eng (ExternalString (value' c)) \<noteq> Inl EngineCrash \<and>
      ExternalCopyString_CopyInto eng c transfer_in =
        (if length (value' c) > kMaxLength eng then Throw js_runtime_error
         else Return (ExternalTwoByte (ExternalString (value' c))))) \<and>
   (\<forall>r. ExternalCopyString_CopyInto eng c transfer_in = Return (ExternalTwoByte r) \<longrightarrow>
      value' c \<noteq> [] \<and> data r = value' c) \<and>
   (NewExternalTwoByte eng (ExternalString (value' c)) = Inl EngineCrash \<longleftrightarrow> value' c = []) \<and>
   (\<forall>f. ExternalCopyString_CopyInto eng c transfer_in \<noteq> Abort f)"
  by (auto simp: ExternalCopyString_CopyInto_def NewExternalTwoByte_def
      ExternalString_length_def Unmaybe_def split: if_splits)

text \<open>The theorem at the empty copy and at the copy of \<^verbatim>\<open>hi\<close>.\<close>

theorem ExternalCopyString_CopyInto_total_witness:
  "value' (ExternalCopyString []) = [] \<and>
   ExternalCopyString_CopyInto ascii_engine (ExternalCopyString []) False = Return String_Empty \<and>
   NewExternalTwoByte ascii_engine (ExternalString []) = Inl EngineCrash \<and>
   value' (ExternalCopyString [104, 105]) \<noteq> [] \<and>
   ExternalCopyString_CopyInto ascii_engine (ExternalCopyString [104, 105]) False =
     Return (ExternalTwoByte (ExternalString [104, 105]))"
  using ExternalCopyString_CopyInto_total [of "ExternalCopyString []" ascii_engine False]
    ExternalCopyString_CopyInto_total [of "ExternalCopyString [104, 105]" ascii_engine False]
  by (simp add: ascii_engine_def)

section \<open>The executor lock\<close>

text \<open>
  A run leaves the thread as it found it, and in every state it passes through the
  current isolate is the environment of the innermost live lock.
\<close>

lemma exec_restores: "exec c t = (ok, t', seen) \<Longrightarrow> t' = t"
proof (induction c arbitrary: t ok t' seen)
  case Step
  then show ?case by simp
next
  case Raise
  then show ?case by simp
next
  case (Seq c1 c2)
  obtain ok1 t1 seen1 where e1: "exec c1 t = (ok1, t1, seen1)"
    by (cases "exec c1 t") auto
  then have t1: "t1 = t" by (rule Seq.IH(1))
  show ?case
  proof (cases ok1)
    case True
    obtain ok2 t2 seen2 where e2: "exec c2 t1 = (ok2, t2, seen2)"
      by (cases "exec c2 t1") auto
    then have "t2 = t1" by (rule Seq.IH(2))
    with Seq.prems e1 e2 True t1 show ?thesis by simp
  next
    case False
    with Seq.prems e1 t1 show ?thesis by simp
  qed
next
  case (Scope env c)
  obtain ok1 t1 seen1 where e1: "exec c (ExecutorLock_ctor env t) = (ok1, t1, seen1)"
    by (cases "exec c (ExecutorLock_ctor env t)") auto
  then have "t1 = ExecutorLock_ctor env t" by (rule Scope.IH)
  with Scope.prems e1 show ?case
    by (simp add: ExecutorLock_ctor_def ExecutorLock_dtor_def)
qed


text \<open>
  A property that every construction establishes, and that holds at the start, holds in
  every state the run passes through.
\<close>

lemma exec_seen_invariant:
  assumes ctor: "\<And>env t. P (ExecutorLock_ctor env t)"
  shows "P t \<Longrightarrow> exec c t = (ok, t', seen) \<Longrightarrow> s \<in> set seen \<Longrightarrow> P s"
proof (induction c arbitrary: t ok t' seen)
  case Step
  then show ?case by auto
next
  case Raise
  then show ?case by auto
next
  case (Seq c1 c2)
  obtain ok1 t1 seen1 where e1: "exec c1 t = (ok1, t1, seen1)"
    by (cases "exec c1 t") auto
  then have t1: "t1 = t" by (rule exec_restores)
  obtain ok2 t2 seen2 where e2: "exec c2 t = (ok2, t2, seen2)"
    by (cases "exec c2 t") auto
  from Seq.prems(2,3) e1 e2 t1 have "s \<in> set seen1 \<or> s \<in> set seen2"
    by (cases ok1) auto
  then show ?case
    using Seq.IH(1) [OF Seq.prems(1) e1] Seq.IH(2) [OF Seq.prems(1) e2] by blast
next
  case (Scope env c)
  obtain ok1 t1 seen1 where e1: "exec c (ExecutorLock_ctor env t) = (ok1, t1, seen1)"
    by (cases "exec c (ExecutorLock_ctor env t)") auto
  with Scope.prems have "s \<in> set seen1" by simp
  with Scope.IH [OF ctor e1] show ?case .
qed

lemma ctor_innermost: "current_is_innermost (ExecutorLock_ctor env t)"
  by (simp add: current_is_innermost_def ExecutorLock_ctor_def)

lemma ctor_held: "current_is_held (ExecutorLock_ctor env t)"
  by (simp add: current_is_held_def GetCurrent_def holds_lock_def ExecutorLock_ctor_def)

lemmas exec_seen_innermost = exec_seen_invariant [of current_is_innermost, OF ctor_innermost]

lemmas exec_seen_held = exec_seen_invariant [of current_is_held, OF ctor_held]

text \<open>
  Claim C8, as amended. On one thread, the current isolate is the environment of the
  innermost live executor lock: when the thread starts with no lock and no current
  isolate, \<^verbatim>\<open>current\<close> pointing to an environment implies that the thread holds that
  environment's executor lock. The converse is not claimed: an outer lock stays held
  while a nested lock has made another environment current. The destructor restores
  the value \<^verbatim>\<open>current\<close> had before the construction, so a run of scoped code leaves
  the thread's state as it found it, whether it ends normally or by an exception.
\<close>

theorem ExecutorLock_current_innermost:
  assumes "exec c t = (ok, t', seen)"
  shows "t' = t \<and>
     ExecutorLock_dtor (ExecutorLock_ctor env t) = t \<and>
     (current_is_innermost t \<longrightarrow> (\<forall>s\<in>set seen. current_is_innermost s)) \<and>
     (locks t = [] \<and> current t = None \<longrightarrow>
        (\<forall>s\<in>set seen. \<forall>env'. GetCurrent s = Some env' \<longrightarrow> holds_lock s env'))"
proof (intro conjI impI ballI allI)
  show "t' = t" using assms by (rule exec_restores)
  show "ExecutorLock_dtor (ExecutorLock_ctor env t) = t"
    by (simp add: ExecutorLock_ctor_def ExecutorLock_dtor_def)
next
  fix s assume "current_is_innermost t" and "s \<in> set seen"
  with assms show "current_is_innermost s" by (blast intro: exec_seen_innermost)
next
  fix s env'
  assume "locks t = [] \<and> current t = None" and s: "s \<in> set seen" and cur: "GetCurrent s = Some env'"
  then have "current_is_held t" by (simp add: current_is_held_def GetCurrent_def)
  from exec_seen_held [OF this assms s] cur show "holds_lock s env'"
    by (simp add: current_is_held_def)
qed

text \<open>
  The theorem at a thread that takes the lock of environment 1, inside it the lock of
  environment 2 for one step, and then throws.
\<close>

theorem ExecutorLock_current_innermost_witness:
  "exec (Scope 1 (Seq (Scope 2 Step) Raise)) \<lparr>current = None, locks = []\<rparr> =
     (False, \<lparr>current = None, locks = []\<rparr>,
      [\<lparr>current = Some 2, locks = [\<lparr>last' = Some 1, locker = 2\<rparr>, \<lparr>last' = None, locker = 1\<rparr>]\<rparr>,
       \<lparr>current = Some 1, locks = [\<lparr>last' = None, locker = 1\<rparr>]\<rparr>]) \<and>
   current_is_innermost \<lparr>current = None, locks = []\<rparr> \<and>
   current_is_innermost
     \<lparr>current = Some 2, locks = [\<lparr>last' = Some 1, locker = 2\<rparr>, \<lparr>last' = None, locker = 1\<rparr>]\<rparr> \<and>
   holds_lock
     \<lparr>current = Some 2, locks = [\<lparr>last' = Some 1, locker = 2\<rparr>, \<lparr>last' = None, locker = 1\<rparr>]\<rparr> 2 \<and>
   holds_lock \<lparr>current = Some 1, locks = [\<lparr>last' = None, locker = 1\<rparr>]\<rparr> 1"
proof -
  have run: "exec (Scope 1 (Seq (Scope 2 Step) Raise)) \<lparr>current = None, locks = []\<rparr> =
     (False, \<lparr>current = None, locks = []\<rparr>,
      [\<lparr>current = Some 2, locks = [\<lparr>last' = Some 1, locker = 2\<rparr>, \<lparr>last' = None, locker = 1\<rparr>]\<rparr>,
       \<lparr>current = Some 1, locks = [\<lparr>last' = None, locker = 1\<rparr>]\<rparr>])"
    by (simp add: ExecutorLock_ctor_def ExecutorLock_dtor_def)
  have start: "current_is_innermost \<lparr>current = None, locks = []\<rparr>"
    by (simp add: current_is_innermost_def)
  from ExecutorLock_current_innermost [OF run, of 1] start run show ?thesis
    by (simp add: GetCurrent_def holds_lock_def current_is_innermost_def
        ExecutorLock_ctor_def ExecutorLock_dtor_def)
qed

text \<open>
  Claim C8 as stated fails with a nested lock: inside the inner block the thread holds
  the executor lock of environment 1, and the current isolate is environment 2.
\<close>

theorem current_iff_holds_counterexample:
  "exec (Scope 1 (Scope 2 Step)) \<lparr>current = None, locks = []\<rparr> =
     (True, \<lparr>current = None, locks = []\<rparr>,
      [\<lparr>current = Some 2, locks = [\<lparr>last' = Some 1, locker = 2\<rparr>, \<lparr>last' = None, locker = 1\<rparr>]\<rparr>]) \<and>
   holds_lock
     \<lparr>current = Some 2, locks = [\<lparr>last' = Some 1, locker = 2\<rparr>, \<lparr>last' = None, locker = 1\<rparr>]\<rparr> 1 \<and>
   GetCurrent
     \<lparr>current = Some 2, locks = [\<lparr>last' = Some 1, locker = 2\<rparr>, \<lparr>last' = None, locker = 1\<rparr>]\<rparr> \<noteq> Some 1 \<and>
   \<not> (GetCurrent
     \<lparr>current = Some 2, locks = [\<lparr>last' = Some 1, locker = 2\<rparr>, \<lparr>last' = None, locker = 1\<rparr>]\<rparr> = Some 1 \<longleftrightarrow>
     holds_lock
     \<lparr>current = Some 2, locks = [\<lparr>last' = Some 1, locker = 2\<rparr>, \<lparr>last' = None, locker = 1\<rparr>]\<rparr> 1)"
  by (simp add: ExecutorLock_ctor_def ExecutorLock_dtor_def holds_lock_def GetCurrent_def)

section \<open>The memory-limit flag\<close>

lemma step_keeps_hit_memory_limit:
  assumes "hit_memory_limit e" and "step operation e = Inr e'"
  shows "hit_memory_limit e'"
proof (cases operation)
  case (GCEpilogue major heap)
  with assms show ?thesis by (auto simp: GCEpilogueCallback_def)
next
  case OOMError
  with assms show ?thesis
    by (auto simp: OOMErrorCallback_def Terminate_def split: if_splits option.splits)
next
  case (PromiseReject rejection)
  with assms show ?thesis by (auto simp: PromiseRejectCallback_def split: option.splits)
next
  case TaskEpilogueOp
  with assms show ?thesis by (auto simp: TaskEpilogue_def split: option.splits)
next
  case TerminateOp
  with assms show ?thesis by (auto simp: Terminate_def split: if_splits option.splits)
next
  case (TransferInOp expected_size after_gc)
  with assms show ?thesis by (auto simp: TransferIn_def)
next
  case (SetOp key handle)
  with assms show ?thesis by (auto simp: Set_def)
qed

text \<open>
  Claim C5. No operation of the environment (the GC epilogue, the OOM callback, the
  promise-reject callback, the task epilogue, \<^verbatim>\<open>Terminate\<close>, a transfer, a slot
  write) resets \<open>hit_memory_limit\<close>: once \<^verbatim>\<open>DidHitMemoryLimit()\<close> returns true, it
  returns true after every run of operations.
\<close>

theorem hit_memory_limit_monotone:
  "DidHitMemoryLimit e \<Longrightarrow> run operations e = Inr e' \<Longrightarrow> DidHitMemoryLimit e'"
proof (induction operations arbitrary: e)
  case Nil
  then show ?case by simp
next
  case (Cons operation rest)
  from Cons.prems(2) obtain e1 where s: "step operation e = Inr e1" and r: "run rest e1 = Inr e'"
    by (auto split: sum.splits)
  from Cons.prems(1) s have "DidHitMemoryLimit e1"
    by (auto simp: DidHitMemoryLimit_def dest: step_keeps_hit_memory_limit)
  then show ?case using r by (rule Cons.IH)
qed

text \<open>
  The theorem at the example: the major collection sets the flag, and it is still set
  after the operations that follow, a collection below the limit among them.
\<close>

theorem hit_memory_limit_monotone_witness:
  "\<not> DidHitMemoryLimit example_environment \<and>
   DidHitMemoryLimit
     (GCEpilogueCallback True \<lparr>used_heap_size = 90, external_memory = 20\<rparr> example_environment) \<and>
   run example_operations
     (GCEpilogueCallback True \<lparr>used_heap_size = 90, external_memory = 20\<rparr> example_environment) =
     Inr \<lparr>isolate = \<lparr>termination_pending = True\<rparr>, holder = Some \<lparr>holder_isolate = None\<rparr>,
          memory_limit = 100, hit_memory_limit = True, root = False,
          last_heap = \<lparr>used_heap_size = 10, external_memory = 0\<rparr>,
          rejected_promise_error = Some 5, specifics = [Some 7], terminated = True\<rparr> \<and>
   DidHitMemoryLimit
     \<lparr>isolate = \<lparr>termination_pending = True\<rparr>, holder = Some \<lparr>holder_isolate = None\<rparr>,
      memory_limit = 100, hit_memory_limit = True, root = False,
      last_heap = \<lparr>used_heap_size = 10, external_memory = 0\<rparr>,
      rejected_promise_error = Some (5::nat), specifics = [Some 7], terminated = True\<rparr>"
proof -
  have before: "\<not> DidHitMemoryLimit example_environment"
    by (simp add: DidHitMemoryLimit_def example_environment_def default_members_def New_def)
  have hit: "DidHitMemoryLimit
      (GCEpilogueCallback True \<lparr>used_heap_size = 90, external_memory = 20\<rparr> example_environment)"
    by (simp add: DidHitMemoryLimit_def GCEpilogueCallback_def example_environment_def
        default_members_def New_def)
  have ran: "run example_operations
      (GCEpilogueCallback True \<lparr>used_heap_size = 90, external_memory = 20\<rparr> example_environment) =
      Inr \<lparr>isolate = \<lparr>termination_pending = True\<rparr>, holder = Some \<lparr>holder_isolate = None\<rparr>,
           memory_limit = 100, hit_memory_limit = True, root = False,
           last_heap = \<lparr>used_heap_size = 10, external_memory = 0\<rparr>,
           rejected_promise_error = Some 5, specifics = [Some 7], terminated = True\<rparr>"
    by (simp add: example_operations_def example_environment_def default_members_def New_def
        GCEpilogueCallback_def TaskEpilogue_def PromiseRejectCallback_def TransferIn_def
        Set_def emplace_back_while.simps Terminate_def TerminateExecution_def)
  from hit_memory_limit_monotone [OF hit ran] before hit ran show ?thesis
    by simp
qed

section \<open>The array-buffer move\<close>

lemma length_contents: "length (contents h buffer) = ByteLength h buffer"
  by (simp add: contents_def ByteLength_def split: backing_store.splits)

text \<open>
  Claim C3. Copying an array buffer with \<^verbatim>\<open>transfer_out\<close> set moves its bytes into
  the copy: afterwards the source buffer is detached and its byte length reads 0, the
  other buffers of the source are untouched, and the copy holds the original bytes and
  their length. \<^verbatim>\<open>CopyInto\<close> at the destination makes a new array buffer whose
  contents are the original bytes, and touches no other buffer there.
\<close>

theorem ArrayBuffer_move:
  assumes "Copy_ArrayBuffer buffer True h = (c, h')"
    and "ExternalCopyArrayBuffer_CopyInto c d = (buffer', d')"
  shows "ByteLength h' buffer = 0 \<and> array_buffers h' buffer = Detached \<and>
     (\<forall>other. other \<noteq> buffer \<longrightarrow> array_buffers h' other = array_buffers h other) \<and>
     Data c = contents h buffer \<and> Length c = ByteLength h buffer \<and>
     buffer' = next_buffer d \<and>
     array_buffers d' buffer' = Attached (contents h buffer) \<and>
     contents d' buffer' = contents h buffer \<and>
     ByteLength d' buffer' = ByteLength h buffer \<and>
     (\<forall>other. other \<noteq> buffer' \<longrightarrow> array_buffers d' other = array_buffers d other)"
proof -
  from assms(1) have c: "c = \<lparr>ab_value = contents h buffer, ab_length = ByteLength h buffer\<rparr>"
    and h': "h' = h\<lparr>array_buffers := (array_buffers h)(buffer := Detached)\<rparr>"
    by (simp_all add: Copy_ArrayBuffer_def Transfer_def)
  have whole: "take (ab_length c) (ab_value c) = contents h buffer"
    by (simp add: c length_contents [symmetric])
  from assms(2) have b': "buffer' = next_buffer d"
    and d': "d' = d\<lparr>array_buffers := (array_buffers d)(next_buffer d := Attached (contents h buffer)),
        next_buffer := Suc (next_buffer d)\<rparr>"
    by (auto simp: ExternalCopyArrayBuffer_CopyInto_def whole)
  have detached: "ByteLength h' buffer = 0" "array_buffers h' buffer = Detached"
    by (simp_all add: h' ByteLength_def)
  have made: "array_buffers d' buffer' = Attached (contents h buffer)"
    by (simp add: b' d')
  then have "contents d' buffer' = contents h buffer"
    and "ByteLength d' buffer' = ByteLength h buffer"
    by (simp_all add: contents_def [of d'] ByteLength_def [of d'] length_contents)
  with detached made show ?thesis
    by (simp add: c h' b' d' Data_def Length_def)
qed

text \<open>The theorem at the example: the bytes 1, 2, 3 move from buffer 0 of the source.\<close>

theorem ArrayBuffer_move_witness:
  "Copy_ArrayBuffer 0 True example_source =
     (\<lparr>ab_value = [1, 2, 3], ab_length = 3\<rparr>,
      example_source\<lparr>array_buffers := (array_buffers example_source)(0 := Detached)\<rparr>) \<and>
   ExternalCopyArrayBuffer_CopyInto \<lparr>ab_value = [1, 2, 3], ab_length = 3\<rparr> example_destination =
     (0, example_destination\<lparr>array_buffers := (array_buffers example_destination)(0 := Attached [1, 2, 3]),
           next_buffer := 1\<rparr>) \<and>
   contents example_source 0 = [1, 2, 3] \<and>
   ByteLength (example_source\<lparr>array_buffers := (array_buffers example_source)(0 := Detached)\<rparr>) 0 = 0 \<and>
   contents (example_destination\<lparr>array_buffers := (array_buffers example_destination)(0 := Attached [1, 2, 3]),
           next_buffer := 1\<rparr>) 0 = [1, 2, 3]"
proof -
  have moved: "Copy_ArrayBuffer 0 True example_source =
     (\<lparr>ab_value = [1, 2, 3], ab_length = 3\<rparr>,
      example_source\<lparr>array_buffers := (array_buffers example_source)(0 := Detached)\<rparr>)"
    by (simp add: Copy_ArrayBuffer_def Transfer_def contents_def ByteLength_def example_source_def)
  have made: "ExternalCopyArrayBuffer_CopyInto \<lparr>ab_value = [1, 2, 3], ab_length = 3\<rparr> example_destination =
     (0, example_destination\<lparr>array_buffers := (array_buffers example_destination)(0 := Attached [1, 2, 3]),
           next_buffer := 1\<rparr>)"
    by (simp add: ExternalCopyArrayBuffer_CopyInto_def example_destination_def)
  have src: "contents example_source 0 = [1, 2, 3]"
    by (simp add: contents_def example_source_def)
  from ArrayBuffer_move [OF moved made] moved made src show ?thesis
    by simp
qed

end
